theory Spec2Isabelle
  imports Main
begin

text \<open>
  A model of \<open>claude_agent_quick_start_agentcore.py\<close>: the session marker that
  \<open>save_session_id\<close> writes and \<open>get_stored_session_id\<close> reads back, the scan of the
  listed events, and \<open>main\<close> with its resume-then-fresh fallback. Functions return
  what the Python returns; an exception is a value (\<open>Inl\<close>), so that each
  \<open>try\<close>/\<open>except\<close> of the source is a case distinction of the model.
\<close>

section \<open>Python strings\<close>

text \<open>
  A Python \<open>str\<close> is modelled as a \<^typ>\<open>string\<close>: a list of 8-bit characters, read
  as the code points U+0000 .. U+00FF. On these code points \<open>str.isspace\<close>,
  \<open>str.lower\<close>, \<open>str.startswith\<close>, \<open>str.replace\<close>, \<open>str.strip\<close>, \<open>str.join\<close>
  and the substring test \<open>in\<close> are the functions below.
\<close>

definition isspace :: "char \<Rightarrow> bool" where
  \<comment> \<open>The characters \<open>str.strip()\<close> removes: TAB, LF, VT, FF, CR, FS, GS, RS, US,
      SPACE, NEL (U+0085) and NBSP (U+00A0).\<close>
  "isspace c = ((of_char c :: nat) \<in> {9, 10, 11, 12, 13, 28, 29, 30, 31, 32, 133, 160})"

definition lower_char :: "char \<Rightarrow> char" where
  \<comment> \<open>\<open>A\<close>..\<open>Z\<close> and U+00C0..U+00DE (but the multiplication sign U+00D7) move up by 32.\<close>
  "lower_char c =
     (let n = (of_char c :: nat)
      in if (65 \<le> n \<and> n \<le> 90) \<or> (192 \<le> n \<and> n \<le> 222 \<and> n \<noteq> 215)
         then char_of (n + 32) else c)"

definition py_lower :: "string \<Rightarrow> string" where
  "py_lower s = map lower_char s"

definition startswith :: "string \<Rightarrow> string \<Rightarrow> bool" where
  \<comment> \<open>\<open>s.startswith(p)\<close>\<close>
  "startswith s p = (take (length p) s = p)"

fun py_in :: "string \<Rightarrow> string \<Rightarrow> bool" where
  \<comment> \<open>\<open>sub in s\<close>: \<open>sub\<close> occurs in \<open>s\<close> as a contiguous substring.\<close>
  "py_in sub [] = (sub = [])"
| "py_in sub (c # cs) = (startswith (c # cs) sub \<or> py_in sub cs)"

function py_replace :: "string \<Rightarrow> string \<Rightarrow> string \<Rightarrow> string" where
  \<comment> \<open>\<open>s.replace(old, new)\<close>: every non-overlapping occurrence of \<open>old\<close>, found from
      the left, is replaced by \<open>new\<close>.\<close>
  "py_replace [] old new = (if old = [] then new else [])"
| "py_replace (c # cs) old new =
     (if old = [] then new @ c # py_replace cs old new
      else if startswith (c # cs) old
           then new @ py_replace (drop (length old) (c # cs)) old new
           else c # py_replace cs old new)"
  by pat_completeness auto
termination
  by (relation "measure (\<lambda>(s, old, new). length s)") auto

definition py_strip :: "string \<Rightarrow> string" where
  \<comment> \<open>\<open>s.strip()\<close>\<close>
  "py_strip s = rev (dropWhile isspace (rev (dropWhile isspace s)))"

fun py_join :: "string \<Rightarrow> string list \<Rightarrow> string" where
  \<comment> \<open>\<open>sep.join(xs)\<close>\<close>
  "py_join sep [] = []"
| "py_join sep [x] = x"
| "py_join sep (x # y # ys) = x @ sep @ py_join sep (y # ys)"

section \<open>The session marker\<close>

definition MARKER_PREFIX :: string where
  "MARKER_PREFIX = ''__SESSION__:''"

definition encode :: "string \<Rightarrow> string" where
  \<comment> \<open>\<open>f"__SESSION__:{session_id}"\<close>, the text of the third message of
      \<open>save_session_id\<close>.\<close>
  "encode session_id = MARKER_PREFIX @ session_id"

definition decode :: "string \<Rightarrow> string option" where
  \<comment> \<open>The test and the extraction that \<open>get_stored_session_id\<close> applies to the text of
      a message: \<open>content.startswith("__SESSION__:")\<close>, then
      \<open>content.replace("__SESSION__:", "").strip()\<close>.\<close>
  "decode content =
     (if startswith content MARKER_PREFIX
      then Some (py_strip (py_replace content MARKER_PREFIX []))
      else None)"

definition produced_by_encode :: "string \<Rightarrow> bool" where
  \<comment> \<open>The texts that \<open>encode\<close> yields for a non-empty handle, as a test: the prefix,
      then at least one more character (see \<open>produced_by_encode_iff\<close>).\<close>
  "produced_by_encode s =
     (startswith s MARKER_PREFIX \<and> drop (length MARKER_PREFIX) s \<noteq> [])"

section \<open>Python values, exceptions and the environment\<close>

text \<open>
  The events the store returns are JSON-like values; the payload of a request is a dict
  of them.
\<close>

datatype pyval =
    PNone
  | PBool bool
  | PInt int
  | PStr string
  | PList "pyval list"
  | PDict "(string \<times> pyval) list"

fun truthy :: "pyval \<Rightarrow> bool" where
  \<comment> \<open>What \<open>if x:\<close> tests.\<close>
  "truthy PNone = False"
| "truthy (PBool b) = b"
| "truthy (PInt i) = (i \<noteq> 0)"
| "truthy (PStr s) = (s \<noteq> [])"
| "truthy (PList xs) = (xs \<noteq> [])"
| "truthy (PDict d) = (d \<noteq> [])"

definition truthy_opt :: "string option \<Rightarrow> bool" where
  \<comment> \<open>\<open>if x:\<close> for \<open>x: str | None\<close>.\<close>
  "truthy_opt x = (case x of None \<Rightarrow> False | Some s \<Rightarrow> s \<noteq> [])"

definition dict_get :: "(string \<times> pyval) list \<Rightarrow> string \<Rightarrow> pyval \<Rightarrow> pyval" where
  \<comment> \<open>\<open>d.get(k, dflt)\<close> on a dict.\<close>
  "dict_get d k dflt = (case map_of d k of Some v \<Rightarrow> v | None \<Rightarrow> dflt)"

text \<open>An exception \<open>e\<close> is modelled by its message \<open>str(e)\<close>.\<close>

datatype py_error = PyException string

fun str_of :: "py_error \<Rightarrow> string" where
  "str_of (PyException m) = m"

fun type_name :: "pyval \<Rightarrow> string" where
  "type_name PNone = ''NoneType''"
| "type_name (PBool b) = ''bool''"
| "type_name (PInt i) = ''int''"
| "type_name (PStr s) = ''str''"
| "type_name (PList xs) = ''list''"
| "type_name (PDict d) = ''dict''"

definition AttributeError :: "pyval \<Rightarrow> string \<Rightarrow> py_error" where
  "AttributeError x attr =
     PyException ([CHR 0x27] @ type_name x @ [CHR 0x27] @ '' object has no attribute ''
                  @ [CHR 0x27] @ attr @ [CHR 0x27])"

fun py_get :: "pyval \<Rightarrow> string \<Rightarrow> pyval \<Rightarrow> py_error + pyval" where
  \<comment> \<open>\<open>x.get(k, dflt)\<close> on any value: only a dict has the method.\<close>
  "py_get (PDict d) k dflt = Inr (dict_get d k dflt)"
| "py_get x k dflt = Inl (AttributeError x ''get'')"

definition or_else :: "string option \<Rightarrow> string \<Rightarrow> string" where
  \<comment> \<open>\<open>x or y\<close> for \<open>x: str | None\<close>.\<close>
  "or_else x y = (case x of None \<Rightarrow> y | Some s \<Rightarrow> if s \<noteq> [] then s else y)"

definition MEMORY_ID :: "(string \<rightharpoonup> string) \<Rightarrow> string" where
  \<comment> \<open>The module constant, read from \<open>os.environ\<close>.\<close>
  "MEMORY_ID environ =
     or_else (environ ''BEDROCK_AGENTCORE_MEMORY_ID'')
       (or_else (environ ''MEMORY_ID'') ''claudeagentsdkdemo_mem-ASCTQAHVFO'')"

definition ACTOR_ID :: string where
  "ACTOR_ID = ''claude_agent''"

section \<open>The collaborators and the calls made to them\<close>

text \<open>
  The memory client and the agent SDK client are outside the repository: each is a
  parameter that says what a call returns or raises. Every call made to them is
  recorded, in order, with its arguments.
\<close>

record MemoryClient =
  list_events :: "string \<Rightarrow> string \<Rightarrow> pyval \<Rightarrow> nat \<Rightarrow> py_error + pyval list"
  create_event :: "string \<Rightarrow> string \<Rightarrow> pyval \<Rightarrow> (pyval \<times> string) list \<Rightarrow> py_error option"

datatype block = TextBlock string | OtherBlock

datatype message = AssistantMessage "block list" | ResultMessage string | OtherMessage

text \<open>
  \<open>ClaudeSDKClient\<close>: for a prompt and the \<open>resume\<close> option, the messages of
  \<open>receive_response()\<close>, or the exception raised on the way.
\<close>

type_synonym ClaudeSDKClient = "pyval \<Rightarrow> string option \<Rightarrow> py_error + message list"

datatype call =
    ListEvents string string pyval nat
  | CreateEvent string string pyval "(pyval \<times> string) list"
  | Query pyval "string option"

fun is_query :: "call \<Rightarrow> bool" where
  "is_query (Query p r) = True"
| "is_query c = False"

fun is_create_event :: "call \<Rightarrow> bool" where
  "is_create_event (CreateEvent m a s ms) = True"
| "is_create_event c = False"

record RequestContext =
  context_session_id :: "string option"

section \<open>get\_stored\_session\_id\<close>

definition scan_msg :: "pyval \<Rightarrow> py_error + string option" where
  \<comment> \<open>The body of \<open>for msg in payload\<close>: \<open>Inr (Some s)\<close> is \<open>return s\<close>,
      \<open>Inr None\<close> goes on with the next message. The test on \<open>content\<close> and the
      extraction are \<open>decode\<close>.\<close>
  "scan_msg msg =
     (case msg of
        PDict d \<Rightarrow>
          (case py_get (dict_get d ''conversational'' (PDict [])) ''content'' (PDict []) of
             Inl e \<Rightarrow> Inl e
           | Inr c \<Rightarrow>
               (case py_get c ''text'' (PStr []) of
                  Inl e \<Rightarrow> Inl e
                | Inr content \<Rightarrow>
                    (case content of
                       PStr s \<Rightarrow> Inr (decode s)
                     | _ \<Rightarrow> Inr None)))
      | _ \<Rightarrow> Inr None)"

fun scan_payload :: "pyval list \<Rightarrow> py_error + string option" where
  "scan_payload [] = Inr None"
| "scan_payload (msg # msgs) =
     (case scan_msg msg of
        Inl e \<Rightarrow> Inl e
      | Inr (Some s) \<Rightarrow> Inr (Some s)
      | Inr None \<Rightarrow> scan_payload msgs)"

fun scan_events :: "pyval list \<Rightarrow> py_error + string option" where
  \<comment> \<open>\<open>for event in events\<close>, then \<open>return None\<close>.\<close>
  "scan_events [] = Inr None"
| "scan_events (event # events) =
     (case event of
        PDict d \<Rightarrow>
          (case dict_get d ''payload'' (PList []) of
             PList payload \<Rightarrow>
               (case scan_payload payload of
                  Inl e \<Rightarrow> Inl e
                | Inr (Some s) \<Rightarrow> Inr (Some s)
                | Inr None \<Rightarrow> scan_events events)
           | _ \<Rightarrow> scan_events events)
      | _ \<Rightarrow> scan_events events)"

definition get_stored_session_id_try ::
  "(string \<rightharpoonup> string) \<Rightarrow> MemoryClient \<Rightarrow> pyval \<Rightarrow> py_error + string option" where
  \<comment> \<open>The \<open>try\<close> block.\<close>
  "get_stored_session_id_try environ memory_client conversation_id =
     (case list_events memory_client (MEMORY_ID environ) ACTOR_ID conversation_id 10 of
        Inl e \<Rightarrow> Inl e
      | Inr events \<Rightarrow> scan_events events)"

definition get_stored_session_id ::
  "(string \<rightharpoonup> string) \<Rightarrow> MemoryClient \<Rightarrow> pyval \<Rightarrow> (py_error + string option) \<times> call list" where
  \<comment> \<open>The result is \<open>Inl e\<close> when \<open>e\<close> leaves the function, \<open>Inr r\<close> when it returns
      \<open>r\<close>; \<open>except Exception\<close> turns what the \<open>try\<close> block raises into
      \<open>return None\<close>.\<close>
  "get_stored_session_id environ memory_client conversation_id =
     (if MEMORY_ID environ = [] then (Inr None, [])
      else
        (case get_stored_session_id_try environ memory_client conversation_id of
           Inl e \<Rightarrow> Inr None
         | Inr r \<Rightarrow> Inr r,
         [ListEvents (MEMORY_ID environ) ACTOR_ID conversation_id 10]))"

section \<open>save\_session\_id\<close>

definition save_session_id ::
  "(string \<rightharpoonup> string) \<Rightarrow> MemoryClient \<Rightarrow> pyval \<Rightarrow> string \<Rightarrow> pyval \<Rightarrow> string
     \<Rightarrow> (py_error + unit) \<times> call list" where
  "save_session_id environ memory_client conversation_id session_id user_input response =
     (if MEMORY_ID environ = [] \<or> session_id = [] then (Inr (), [])
      else
        (let messages =
               [(user_input, ''USER''),
                (PStr response, ''ASSISTANT''),
                (PStr (encode session_id), ''OTHER'')]
         in (case create_event memory_client (MEMORY_ID environ) ACTOR_ID conversation_id
                    messages of
               None \<Rightarrow> Inr ()
             | Some e \<Rightarrow> Inr (),
             [CreateEvent (MEMORY_ID environ) ACTOR_ID conversation_id messages])))"

section \<open>main\<close>

fun text_blocks :: "block list \<Rightarrow> string list" where
  \<comment> \<open>\<open>for block in message.content\<close>: the texts of the \<open>TextBlock\<close>s.\<close>
  "text_blocks [] = []"
| "text_blocks (TextBlock t # bs) = t # text_blocks bs"
| "text_blocks (OtherBlock # bs) = text_blocks bs"

fun receive_response ::
  "message list \<Rightarrow> string list \<Rightarrow> string option \<Rightarrow> string list \<times> string option" where
  \<comment> \<open>\<open>async for message in client.receive_response()\<close>, on \<open>responses\<close> and
      \<open>new_session_id\<close>.\<close>
  "receive_response [] responses new_session_id = (responses, new_session_id)"
| "receive_response (AssistantMessage content # ms) responses new_session_id =
     receive_response ms (responses @ text_blocks content) new_session_id"
| "receive_response (ResultMessage sid # ms) responses new_session_id =
     receive_response ms responses (Some sid)"
| "receive_response (OtherMessage # ms) responses new_session_id =
     receive_response ms responses new_session_id"

definition execute_query ::
  "ClaudeSDKClient \<Rightarrow> pyval \<Rightarrow> string option
     \<Rightarrow> (py_error + string list \<times> string option) \<times> call list" where
  "execute_query client prompt resume_session =
     (let resume = (if truthy_opt resume_session then resume_session else None)
      in (case client prompt resume of
            Inl e \<Rightarrow> Inl e
          | Inr messages \<Rightarrow> Inr (receive_response messages [] None),
          [Query prompt resume]))"

definition expected_invalidity :: "py_error \<Rightarrow> bool" where
  \<comment> \<open>\<open>error_msg = str(e).lower()\<close>, then
      \<open>"no conversation found" in error_msg or "exit code 1" in error_msg\<close>.\<close>
  "expected_invalidity e =
     (let error_msg = py_lower (str_of e)
      in py_in ''no conversation found'' error_msg \<or> py_in ''exit code 1'' error_msg)"

definition query_with_fallback ::
  "ClaudeSDKClient \<Rightarrow> pyval \<Rightarrow> string option
     \<Rightarrow> (py_error + string list \<times> string option) \<times> call list" where
  \<comment> \<open>The body of the outer \<open>try\<close> of \<open>main\<close>.\<close>
  "query_with_fallback client prompt stored_session =
     (if truthy_opt stored_session then
        (case execute_query client prompt stored_session of
           (Inr r, calls) \<Rightarrow> (Inr r, calls)
         | (Inl e, calls) \<Rightarrow>
             (if expected_invalidity e
              then (case execute_query client prompt None of
                      (r', calls') \<Rightarrow> (r', calls @ calls'))
              else (Inl e, calls)))
      else execute_query client prompt None)"

definition conversation_id_of :: "(string \<times> pyval) list \<Rightarrow> RequestContext option \<Rightarrow> pyval" where
  \<comment> \<open>\<open>conversation_id\<close> of \<open>main\<close>: from the payload, else the context's session, else
      \<open>"default"\<close>.\<close>
  "conversation_id_of payload context =
     (let conversation_id = dict_get payload ''conversation_id'' PNone
      in if \<not> truthy conversation_id \<and> context \<noteq> None
         then (case context of
                 Some c \<Rightarrow> PStr (or_else (context_session_id c) ''default'')
               | None \<Rightarrow> PStr ''default'')
         else if \<not> truthy conversation_id then PStr ''default''
         else conversation_id)"

datatype result =
    ErrorResult string
  | TurnResult string pyval "string option"

definition main ::
  "(string \<rightharpoonup> string) \<Rightarrow> MemoryClient \<Rightarrow> ClaudeSDKClient
     \<Rightarrow> (string \<times> pyval) list option \<Rightarrow> RequestContext option
     \<Rightarrow> (py_error + result) \<times> call list" where
  \<comment> \<open>\<open>ErrorResult m\<close> is \<open>{"error": m}\<close>; \<open>TurnResult r c s\<close> is
      \<open>{"response": r, "conversation_id": c, "session_id": s}\<close>. \<open>Inl e\<close> is an
      exception leaving \<open>main\<close>.\<close>
  "main environ memory_client client payload context =
     (case payload of
        None \<Rightarrow> (Inr (ErrorResult ''No payload provided''), [])
      | Some p \<Rightarrow>
          if p = [] then (Inr (ErrorResult ''No payload provided''), [])
          else
            (let prompt = dict_get p ''prompt'' (PStr [])
             in if \<not> truthy prompt then (Inr (ErrorResult ''No prompt provided''), [])
                else
                  (let conversation_id = conversation_id_of p context
                   in (case get_stored_session_id environ memory_client conversation_id of
                         (Inl e, c1) \<Rightarrow> (Inl e, c1)
                       | (Inr stored_session, c1) \<Rightarrow>
                           (case query_with_fallback client prompt stored_session of
                              (Inl e, c2) \<Rightarrow> (Inr (ErrorResult (str_of e)), c1 @ c2)
                            | (Inr (full_response, session_id), c2) \<Rightarrow>
                                (let response_text = py_join [CHR 0x0A] full_response
                                 in (case (case session_id of
                                             None \<Rightarrow> (Inr (), [])
                                           | Some sid \<Rightarrow>
                                               if sid \<noteq> []
                                               then save_session_id environ memory_client
                                                      conversation_id sid prompt response_text
                                               else (Inr (), [])) of
                                       (Inl e, c3) \<Rightarrow> (Inl e, c1 @ c2 @ c3)
                                     | (Inr u, c3) \<Rightarrow>
                                         (Inr (TurnResult response_text conversation_id
                                                 session_id),
                                          c1 @ c2 @ c3))))))))"

section \<open>The store's message format and the resolver as the specification words it\<close>

definition mk_msg :: "string \<times> string \<Rightarrow> pyval" where
  \<comment> \<open>A \<open>(content, role)\<close> message as the store lists it:
      \<open>{"conversational": {"content": {"text": "..."}, "role": "..."}}\<close>.\<close>
  "mk_msg m =
     PDict [(''conversational'',
             PDict [(''content'', PDict [(''text'', PStr (fst m))]),
                    (''role'', PStr (snd m))])]"

definition mk_event :: "(string \<times> string) list \<Rightarrow> pyval" where
  \<comment> \<open>An event: a batch of messages under \<open>"payload"\<close>.\<close>
  "mk_event batch = PDict [(''payload'', PList (map mk_msg batch))]"

definition msg_text :: "pyval \<Rightarrow> string option" where
  \<comment> \<open>The text of a listed message, \<open>msg["conversational"]["content"]["text"]\<close>, when
      every step is there and the text is a string. The role is not looked at.\<close>
  "msg_text msg =
     (case msg of
        PDict d \<Rightarrow>
          (case map_of d ''conversational'' of
             Some (PDict c) \<Rightarrow>
               (case map_of c ''content'' of
                  Some (PDict t) \<Rightarrow>
                    (case map_of t ''text'' of Some (PStr s) \<Rightarrow> Some s | _ \<Rightarrow> None)
                | _ \<Rightarrow> None)
           | _ \<Rightarrow> None)
      | _ \<Rightarrow> None)"

definition malformed :: "pyval \<Rightarrow> bool" where
  \<comment> \<open>A message dict whose \<open>"conversational"\<close> entry, or the \<open>"content"\<close> entry of
      it, is there and is not a dict.\<close>
  "malformed msg =
     (case msg of
        PDict d \<Rightarrow>
          (case map_of d ''conversational'' of
             None \<Rightarrow> False
           | Some (PDict c) \<Rightarrow>
               (case map_of c ''content'' of
                  None \<Rightarrow> False
                | Some (PDict t) \<Rightarrow> False
                | Some other \<Rightarrow> True)
           | Some other \<Rightarrow> True)
      | _ \<Rightarrow> False)"

definition event_messages :: "pyval \<Rightarrow> pyval list" where
  \<comment> \<open>The messages of a listed event: its \<open>"payload"\<close> when the event is a dict and
      the payload a list, whatever other keys the event has; none otherwise.\<close>
  "event_messages event =
     (case event of
        PDict d \<Rightarrow> (case map_of d ''payload'' of Some (PList msgs) \<Rightarrow> msgs | _ \<Rightarrow> [])
      | _ \<Rightarrow> [])"

definition listed_messages :: "pyval list \<Rightarrow> pyval list" where
  \<comment> \<open>All messages of a listing, in the order listed.\<close>
  "listed_messages events = concat (map event_messages events)"

fun first_marker :: "pyval list \<Rightarrow> string option" where
  \<comment> \<open>The handle of the first message whose text decodes; none when a malformed
      message comes before it, or when no text decodes.\<close>
  "first_marker [] = None"
| "first_marker (msg # msgs) =
     (if malformed msg then None
      else (case msg_text msg of
              None \<Rightarrow> first_marker msgs
            | Some s \<Rightarrow> (case decode s of Some h \<Rightarrow> Some h | None \<Rightarrow> first_marker msgs)))"


fun first_decodable :: "(string \<times> string) list \<Rightarrow> string option" where
  \<comment> \<open>The handle of the first message, of any role, whose text decodes.\<close>
  "first_decodable [] = None"
| "first_decodable (m # ms) =
     (case decode (fst m) of Some h \<Rightarrow> Some h | None \<Rightarrow> first_decodable ms)"

fun spec_resolve :: "(string \<times> string) list \<Rightarrow> string option" where
  \<comment> \<open>The specification's resolver: decoding is attempted on the messages of role
      \<open>OTHER\<close> only; the handle of the first that decodes.\<close>
  "spec_resolve [] = None"
| "spec_resolve (m # ms) =
     (if snd m = ''OTHER'' then
        (case decode (fst m) of Some h \<Rightarrow> Some h | None \<Rightarrow> spec_resolve ms)
      else spec_resolve ms)"

fun appended_batches ::
  "MemoryClient \<Rightarrow> call list \<Rightarrow> (pyval \<times> (pyval \<times> string) list) list" where
  \<comment> \<open>The batches the store has taken, each with its conversation: those of the
      \<open>create_event\<close> calls that returned. A call that raises appends nothing.\<close>
  "appended_batches memory_client [] = []"
| "appended_batches memory_client (CreateEvent m a s msgs # calls) =
     (if create_event memory_client m a s msgs = None
      then (s, msgs) # appended_batches memory_client calls
      else appended_batches memory_client calls)"
| "appended_batches memory_client (c # calls) = appended_batches memory_client calls"

definition capital_of :: "char \<Rightarrow> char option" where
  \<comment> \<open>The capital of a small letter.\<close>
  "capital_of = map_of (zip ''abcdefghijklmnopqrstuvwxyz'' ''ABCDEFGHIJKLMNOPQRSTUVWXYZ'')"

definition any_case :: "string \<Rightarrow> string \<Rightarrow> bool" where
  \<comment> \<open>\<open>s\<close> is \<open>phrase\<close>, each letter written small or capital.\<close>
  "any_case phrase s = list_all2 (\<lambda>l c. c = l \<or> capital_of l = Some c) phrase s"

section \<open>Collaborators for the concrete runs\<close>

definition store_listing :: "pyval list \<Rightarrow> MemoryClient" where
  \<comment> \<open>A store that lists the given events and accepts every append.\<close>
  "store_listing events =
     \<lparr>list_events = (\<lambda>memory_id actor_id session_id max_results. Inr events),
      create_event = (\<lambda>memory_id actor_id session_id messages. None)\<rparr>"

definition store_down :: "string \<Rightarrow> MemoryClient" where
  \<comment> \<open>A store whose every call raises.\<close>
  "store_down m =
     \<lparr>list_events = (\<lambda>memory_id actor_id session_id max_results. Inl (PyException m)),
      create_event = (\<lambda>memory_id actor_id session_id messages. Some (PyException m))\<rparr>"

definition client_failing :: "string \<Rightarrow> ClaudeSDKClient" where
  \<comment> \<open>An agent client whose every query raises.\<close>
  "client_failing m = (\<lambda>prompt resume. Inl (PyException m))"

definition client_expired :: "string \<Rightarrow> message list \<Rightarrow> ClaudeSDKClient" where
  \<comment> \<open>An agent client that raises on every resume and answers a fresh query.\<close>
  "client_expired m messages =
     (\<lambda>prompt resume. case resume of Some h \<Rightarrow> Inl (PyException m) | None \<Rightarrow> Inr messages)"

definition client_answering :: "message list \<Rightarrow> ClaudeSDKClient" where
  \<comment> \<open>An agent client that answers every query.\<close>
  "client_answering messages = (\<lambda>prompt resume. Inr messages)"

section \<open>Strings\<close>

lemma startswith_iff: "startswith s p \<longleftrightarrow> (\<exists>t. s = p @ t)"
  unfolding startswith_def by (metis append_eq_conv_conj append_take_drop_id)

lemma py_in_iff: "py_in sub s \<longleftrightarrow> (\<exists>pre post. s = pre @ sub @ post)"
proof (induction s)
  case Nil
  then show ?case by auto
next
  case (Cons c cs)
  show ?case
  proof
    assume "py_in sub (c # cs)"
    then consider "startswith (c # cs) sub" | "py_in sub cs" by auto
    then show "\<exists>pre post. c # cs = pre @ sub @ post"
    proof cases
      case 1
      then obtain t where "c # cs = [] @ sub @ t" by (auto simp: startswith_iff)
      then show ?thesis by blast
    next
      case 2
      then obtain pre post where "cs = pre @ sub @ post" using Cons.IH by blast
      then have "c # cs = (c # pre) @ sub @ post" by simp
      then show ?thesis by blast
    qed
  next
    assume "\<exists>pre post. c # cs = pre @ sub @ post"
    then obtain pre post where e: "c # cs = pre @ sub @ post" by blast
    show "py_in sub (c # cs)"
    proof (cases pre)
      case Nil
      then have "startswith (c # cs) sub" using e by (simp add: startswith_iff)
      then show ?thesis by simp
    next
      case (Cons a pre')
      then have "cs = pre' @ sub @ post" using e by simp
      then show ?thesis using Cons.IH by auto
    qed
  qed
qed

lemma py_in_lower_iff:
  "py_in sub (py_lower s) \<longleftrightarrow> (\<exists>pre mid post. s = pre @ mid @ post \<and> py_lower mid = sub)"
proof
  assume "py_in sub (py_lower s)"
  then obtain a b where "map lower_char s = a @ sub @ b"
    by (auto simp: py_in_iff py_lower_def)
  then obtain pre rest where s: "s = pre @ rest" and "map lower_char rest = sub @ b"
    by (metis map_eq_append_conv)
  then obtain mid post where "rest = mid @ post" and "map lower_char mid = sub"
    by (metis map_eq_append_conv)
  with s show "\<exists>pre mid post. s = pre @ mid @ post \<and> py_lower mid = sub"
    by (auto simp: py_lower_def)
next
  assume "\<exists>pre mid post. s = pre @ mid @ post \<and> py_lower mid = sub"
  then obtain pre mid post where "s = pre @ mid @ post" and "py_lower mid = sub" by blast
  then have "py_lower s = py_lower pre @ sub @ py_lower post" by (auto simp: py_lower_def)
  then show "py_in sub (py_lower s)" unfolding py_in_iff by blast
qed

lemma py_replace_absent:
  "old \<noteq> [] \<Longrightarrow> \<not> py_in old s \<Longrightarrow> py_replace s old new = s"
  by (induction s) auto

lemma py_replace_prefix:
  "old \<noteq> [] \<Longrightarrow> py_replace (old @ s) old new = new @ py_replace s old new"
  by (cases old) (auto simp: startswith_def)

lemma py_strip_id:
  assumes "h \<noteq> []" and "\<not> isspace (hd h)" and "\<not> isspace (last h)"
  shows "py_strip h = h"
proof -
  from assms have lead: "dropWhile isspace h = h" by (cases h) auto
  from assms have "rev h \<noteq> []" and "\<not> isspace (hd (rev h))" by (simp_all add: hd_rev)
  then have trail: "dropWhile isspace (rev h) = rev h" by (cases "rev h") auto
  show ?thesis by (simp add: py_strip_def lead trail)
qed

section \<open>The marker codec\<close>

lemma MARKER_PREFIX_nonempty: "MARKER_PREFIX \<noteq> []"
  by (simp add: MARKER_PREFIX_def)

lemma produced_by_encode_iff:
  "produced_by_encode s \<longleftrightarrow> (\<exists>h. h \<noteq> [] \<and> s = encode h)"
  unfolding produced_by_encode_def encode_def startswith_iff by auto

lemma decode_encode_general:
  "decode (encode h) = Some (py_strip (py_replace h MARKER_PREFIX []))"
  by (simp add: decode_def encode_def startswith_def py_replace_prefix MARKER_PREFIX_nonempty)

lemma decode_encode_inner_marker:
  "decode (encode ''a__SESSION__:b'') = Some ''ab''"
  by (simp add: decode_def encode_def MARKER_PREFIX_def startswith_def py_strip_def isspace_def)

text \<open>
  C1 (as amended). For every non-empty handle \<open>h\<close> that neither starts nor ends with a
  whitespace character and does not contain the marker prefix, decoding the encoded
  marker returns \<open>h\<close> exactly.
\<close>

theorem decode_encode_roundtrip:
  assumes "h \<noteq> []" and "\<not> isspace (hd h)" and "\<not> isspace (last h)"
    and "\<not> py_in MARKER_PREFIX h"
  shows "decode (encode h) = Some h"
  using assms
  by (simp add: decode_encode_general py_replace_absent MARKER_PREFIX_nonempty py_strip_id)

theorem decode_encode_roundtrip_witness:
  "decode (encode ''sess-1'') = Some ''sess-1''"
  using decode_encode_roundtrip [of "''sess-1''"]
  by (simp add: MARKER_PREFIX_def isspace_def startswith_def)

text \<open>
  C1 as stated fails: the handle \<open>" abc"\<close> is not empty, and decoding its marker
  returns \<open>"abc"\<close>, since decoding trims whitespace.
\<close>

theorem decode_encode_counterexample:
  "'' abc'' \<noteq> [] \<and> decode (encode '' abc'') = Some ''abc''
     \<and> decode (encode '' abc'') \<noteq> Some '' abc''"
  by (simp add: decode_def encode_def MARKER_PREFIX_def startswith_def py_strip_def isspace_def)

text \<open>
  C2 (as amended). \<open>decode\<close> is a total function of the text. It returns a handle if and
  only if the text starts with the marker prefix, that is, if and only if the text is the
  prefix followed by some, possibly empty, rest; on every other text, the empty one
  among them, it returns none.
\<close>

theorem decode_iff_prefix:
  "(decode s \<noteq> None \<longleftrightarrow> startswith s MARKER_PREFIX)
     \<and> (decode s \<noteq> None \<longleftrightarrow> (\<exists>h. s = encode h))
     \<and> decode [] = None"
  by (simp add: decode_def startswith_iff encode_def) (simp add: MARKER_PREFIX_def)

text \<open>
  C2 as stated fails: the bare prefix is not the encoding of a non-empty handle, and
  \<open>decode\<close> returns a handle for it, the empty string.
\<close>

theorem decode_bare_prefix_counterexample:
  "\<not> produced_by_encode ''__SESSION__:'' \<and> decode ''__SESSION__:'' = Some []"
  by (simp add: produced_by_encode_def decode_def MARKER_PREFIX_def startswith_def py_strip_def)

section \<open>The resolver\<close>

lemma MEMORY_ID_nonempty: "MEMORY_ID environ \<noteq> []"
  by (simp add: MEMORY_ID_def or_else_def split: option.splits)

lemma scan_msg_mk_msg: "scan_msg (mk_msg m) = Inr (decode (fst m))"
  by (simp add: scan_msg_def mk_msg_def dict_get_def)

lemma scan_payload_mk_msg: "scan_payload (map mk_msg batch) = Inr (first_decodable batch)"
  by (induction batch) (simp_all add: scan_msg_mk_msg split: option.splits)

lemma first_decodable_append:
  "first_decodable (xs @ ys) =
     (case first_decodable xs of Some h \<Rightarrow> Some h | None \<Rightarrow> first_decodable ys)"
  by (induction xs) (simp_all split: option.splits)

lemma scan_events_mk_event:
  "scan_events (map mk_event batches) = Inr (first_decodable (concat batches))"
  by (induction batches)
    (simp_all add: mk_event_def dict_get_def scan_payload_mk_msg first_decodable_append
      split: option.splits)

lemma get_stored_session_id_eq:
  "get_stored_session_id environ memory_client conversation_id =
     (Inr (case list_events memory_client (MEMORY_ID environ) ACTOR_ID conversation_id 10 of
             Inl e \<Rightarrow> None
           | Inr events \<Rightarrow> (case scan_events events of Inl e \<Rightarrow> None | Inr r \<Rightarrow> r)),
      [ListEvents (MEMORY_ID environ) ACTOR_ID conversation_id 10])"
  by (simp add: get_stored_session_id_def get_stored_session_id_try_def MEMORY_ID_nonempty
      split: sum.splits)

lemma get_stored_session_id_returns:
  "\<exists>r. fst (get_stored_session_id environ memory_client conversation_id) = Inr r"
  by (simp add: get_stored_session_id_eq)

lemma first_decodable_at:
  "first_decodable pre = None \<Longrightarrow> decode (fst m) = Some h
     \<Longrightarrow> first_decodable (pre @ m # post) = Some h"
  by (simp add: first_decodable_append)

lemma decode_empty: "decode [] = None"
  by (simp add: decode_def startswith_def MARKER_PREFIX_def)

lemma scan_msg_reading:
  "(case scan_msg msg of Inl e \<Rightarrow> None | Inr r \<Rightarrow> Some r) =
     (if malformed msg then None
      else Some (case msg_text msg of None \<Rightarrow> None | Some s \<Rightarrow> decode s))"
  by (simp add: scan_msg_def malformed_def msg_text_def dict_get_def decode_empty
      split: pyval.splits option.splits)

lemma scan_payload_first_marker:
  "(case scan_payload msgs of Inl e \<Rightarrow> None | Inr r \<Rightarrow> r) = first_marker msgs"
proof (induction msgs)
  case Nil
  then show ?case by simp
next
  case (Cons m ms)
  then show ?case
    using scan_msg_reading [of m]
    by (auto split: sum.splits option.splits if_splits)
qed

lemma scan_msg_malformed: "malformed msg \<Longrightarrow> \<exists>e. scan_msg msg = Inl e"
  using scan_msg_reading [of msg] by (cases "scan_msg msg") simp_all

lemma scan_msg_readable:
  "\<not> malformed msg \<Longrightarrow>
   scan_msg msg = Inr (case msg_text msg of None \<Rightarrow> None | Some s \<Rightarrow> decode s)"
  using scan_msg_reading [of msg] by (cases "scan_msg msg") simp_all

lemma first_marker_after_payload:
  "first_marker (msgs @ rest) =
     (case scan_payload msgs of
        Inl e \<Rightarrow> None
      | Inr (Some h) \<Rightarrow> Some h
      | Inr None \<Rightarrow> first_marker rest)"
proof (induction msgs)
  case Nil
  then show ?case by simp
next
  case (Cons m ms)
  show ?case
  proof (cases "malformed m")
    case True
    then obtain e where "scan_msg m = Inl e" using scan_msg_malformed by blast
    with True show ?thesis by simp
  next
    case False
    then show ?thesis
      using Cons.IH by (simp add: scan_msg_readable split: option.splits)
  qed
qed

lemma event_messages_payload:
  "event_messages event =
     (case event of
        PDict d \<Rightarrow> (case dict_get d ''payload'' (PList []) of PList msgs \<Rightarrow> msgs | _ \<Rightarrow> [])
      | _ \<Rightarrow> [])"
  by (simp add: event_messages_def dict_get_def split: pyval.splits option.splits)

lemma scan_events_first_marker:
  "(case scan_events events of Inl e \<Rightarrow> None | Inr r \<Rightarrow> r)
     = first_marker (listed_messages events)"
proof (induction events)
  case Nil
  then show ?case by (simp add: listed_messages_def)
next
  case (Cons ev evs)
  have step: "first_marker (listed_messages (ev # evs)) =
     (case scan_payload (event_messages ev) of
        Inl e \<Rightarrow> None
      | Inr (Some h) \<Rightarrow> Some h
      | Inr None \<Rightarrow> first_marker (listed_messages evs))"
    unfolding listed_messages_def by (simp add: first_marker_after_payload)
  show ?case
    unfolding step using Cons.IH
    by (simp add: event_messages_payload split: pyval.splits sum.splits option.splits)
qed

lemma resolve_store_format:
  assumes "list_events memory_client (MEMORY_ID environ) ACTOR_ID conversation_id 10
             = Inr (map mk_event batches)"
  shows "fst (get_stored_session_id environ memory_client conversation_id)
           = Inr (first_decodable (concat batches))"
  using assms by (simp add: get_stored_session_id_eq scan_events_mk_event)

lemma first_marker_at:
  assumes "list_all (\<lambda>m. \<not> malformed m
                        \<and> (case msg_text m of None \<Rightarrow> True | Some s \<Rightarrow> decode s = None)) pre"
    and "\<not> malformed msg" and "msg_text msg = Some t" and "decode t = Some h"
  shows "first_marker (pre @ msg # post) = Some h"
  using assms by (induction pre) (auto split: option.splits)

lemma msg_text_mk_msg: "msg_text (mk_msg (t, r)) = Some t \<and> \<not> malformed (mk_msg (t, r))"
  by (simp add: msg_text_def malformed_def mk_msg_def)

text \<open>
  C3 (as amended). For every sequence of events the store returns, the resolver goes
  through the events in the order returned (an entry that is not a dict, or whose
  payload is not a list, is skipped; other keys of an event do not matter) and through
  the messages of each payload in order, attempts decoding on the text of every
  message whatever its role, and returns the handle of the first message that decodes;
  it returns none when a malformed message comes before any that decodes. So a marker
  that no decodable and no malformed message precedes, in particular the only
  decodable one, gives the result, whatever the roles and texts of the other messages.
\<close>

theorem resolve_first_marker_any_role:
  assumes "list_events memory_client (MEMORY_ID environ) ACTOR_ID conversation_id 10
             = Inr events"
  shows "fst (get_stored_session_id environ memory_client conversation_id)
           = Inr (first_marker (listed_messages events))
         \<and> (\<forall>pre msg post t h.
               listed_messages events = pre @ msg # post
                 \<and> list_all (\<lambda>m. \<not> malformed m
                                  \<and> (case msg_text m of
                                       None \<Rightarrow> True
                                     | Some s \<Rightarrow> decode s = None)) pre
                 \<and> \<not> malformed msg \<and> msg_text msg = Some t \<and> decode t = Some h
               \<longrightarrow> fst (get_stored_session_id environ memory_client conversation_id)
                     = Inr (Some h))
         \<and> (\<forall>t r. msg_text (mk_msg (t, r)) = Some t \<and> \<not> malformed (mk_msg (t, r)))"
proof -
  have result: "fst (get_stored_session_id environ memory_client conversation_id)
                  = Inr (first_marker (listed_messages events))"
    using assms by (simp add: get_stored_session_id_eq scan_events_first_marker)
  then show ?thesis
    using first_marker_at msg_text_mk_msg by auto
qed

theorem resolve_first_marker_any_role_witness:
  "fst (get_stored_session_id Map.empty
          (store_listing
             [PStr ''not an event'',
              PDict [(''eventId'', PStr ''e-2''),
                     (''payload'',
                      PList [mk_msg (''hello'', ''USER''),
                             PDict [(''blob'', PStr ''__SESSION__:raw'')],
                             PInt 7,
                             mk_msg (''hi there'', ''ASSISTANT'')])],
              PDict [(''eventId'', PStr ''e-1''), (''payload'', PNone)],
              PDict [(''eventId'', PStr ''e-0''),
                     (''payload'',
                      PList [mk_msg (''continue'', ''USER''),
                             mk_msg (''ok'', ''ASSISTANT''),
                             mk_msg (''__SESSION__:sess-2'', ''OTHER'')]),
                     (''eventTimestamp'', PInt 1700000000)]])
          (PStr ''c1''))
     = Inr (Some ''sess-2'')"
  using resolve_first_marker_any_role
    [of "store_listing
           [PStr ''not an event'',
            PDict [(''eventId'', PStr ''e-2''),
                   (''payload'',
                    PList [mk_msg (''hello'', ''USER''),
                           PDict [(''blob'', PStr ''__SESSION__:raw'')],
                           PInt 7,
                           mk_msg (''hi there'', ''ASSISTANT'')])],
            PDict [(''eventId'', PStr ''e-1''), (''payload'', PNone)],
            PDict [(''eventId'', PStr ''e-0''),
                   (''payload'',
                    PList [mk_msg (''continue'', ''USER''),
                           mk_msg (''ok'', ''ASSISTANT''),
                           mk_msg (''__SESSION__:sess-2'', ''OTHER'')]),
                   (''eventTimestamp'', PInt 1700000000)]]"
        Map.empty "PStr ''c1''"
        "[PStr ''not an event'',
          PDict [(''eventId'', PStr ''e-2''),
                 (''payload'',
                  PList [mk_msg (''hello'', ''USER''),
                         PDict [(''blob'', PStr ''__SESSION__:raw'')],
                         PInt 7,
                         mk_msg (''hi there'', ''ASSISTANT'')])],
          PDict [(''eventId'', PStr ''e-1''), (''payload'', PNone)],
          PDict [(''eventId'', PStr ''e-0''),
                 (''payload'',
                  PList [mk_msg (''continue'', ''USER''),
                         mk_msg (''ok'', ''ASSISTANT''),
                         mk_msg (''__SESSION__:sess-2'', ''OTHER'')]),
                 (''eventTimestamp'', PInt 1700000000)]]"]
  by (simp add: store_listing_def listed_messages_def event_messages_def msg_text_def
      malformed_def mk_msg_def decode_def MARKER_PREFIX_def startswith_def py_strip_def
      isspace_def)

text \<open>
  C3 as stated fails: a batch as \<open>save_session_id\<close> writes it, for a prompt that itself
  starts with the marker prefix. The only decodable message of role \<open>OTHER\<close> carries
  \<open>sess-1\<close>, and the resolver returns the handle read from the \<open>USER\<close> message.
\<close>

theorem resolve_role_counterexample:
  "fst (get_stored_session_id Map.empty
          (store_listing
             [mk_event
                [(''__SESSION__:typed-by-user'', ''USER''), (''ok'', ''ASSISTANT''),
                 (''__SESSION__:sess-1'', ''OTHER'')]])
          (PStr ''c1''))
     = Inr (Some ''typed-by-user'')
   \<and> spec_resolve
        [(''__SESSION__:typed-by-user'', ''USER''), (''ok'', ''ASSISTANT''),
         (''__SESSION__:sess-1'', ''OTHER'')]
     = Some ''sess-1''"
  by (simp add: get_stored_session_id_eq store_listing_def mk_event_def mk_msg_def
      scan_msg_def dict_get_def decode_def MARKER_PREFIX_def startswith_def py_strip_def
      isspace_def)

lemma bare_prefix_hides_marker:
  "fst (get_stored_session_id Map.empty
          (store_listing
             [mk_event [(''__SESSION__:'', ''OTHER'')],
              mk_event [(''__SESSION__:sess-1'', ''OTHER'')]])
          (PStr ''c1''))
     = Inr (Some [])"
  by (simp add: get_stored_session_id_eq store_listing_def mk_event_def mk_msg_def
      scan_msg_def dict_get_def decode_def MARKER_PREFIX_def startswith_def py_strip_def)

lemma malformed_message_hides_marker:
  "fst (get_stored_session_id Map.empty
          (store_listing
             [PDict [(''payload'', PList [PDict [(''conversational'', PNone)]])],
              mk_event [(''__SESSION__:sess-1'', ''OTHER'')]])
          (PStr ''c1''))
     = Inr None"
  by (simp add: get_stored_session_id_eq store_listing_def mk_event_def mk_msg_def
      scan_msg_def dict_get_def)








section \<open>One turn\<close>

lemma save_session_id_eq:
  "session_id \<noteq> [] \<Longrightarrow>
   save_session_id environ memory_client conversation_id session_id user_input response =
     (Inr (),
      [CreateEvent (MEMORY_ID environ) ACTOR_ID conversation_id
         [(user_input, ''USER''), (PStr response, ''ASSISTANT''),
          (PStr (encode session_id), ''OTHER'')]])"
  by (simp add: save_session_id_def MEMORY_ID_nonempty Let_def split: option.splits)

lemma execute_query_fresh:
  "execute_query client prompt None =
     (case client prompt None of
        Inl e \<Rightarrow> Inl e
      | Inr messages \<Rightarrow> Inr (receive_response messages [] None),
      [Query prompt None])"
  by (simp add: execute_query_def truthy_opt_def Let_def)

lemma execute_query_resume:
  "h \<noteq> [] \<Longrightarrow>
   execute_query client prompt (Some h) =
     (case client prompt (Some h) of
        Inl e \<Rightarrow> Inl e
      | Inr messages \<Rightarrow> Inr (receive_response messages [] None),
      [Query prompt (Some h)])"
  by (simp add: execute_query_def truthy_opt_def Let_def)

lemma query_with_fallback_fresh:
  "\<not> truthy_opt stored \<Longrightarrow>
   query_with_fallback client prompt stored = execute_query client prompt None"
  by (simp add: query_with_fallback_def)

lemma query_with_fallback_resumed:
  "h \<noteq> [] \<Longrightarrow> client prompt (Some h) = Inr messages \<Longrightarrow>
   query_with_fallback client prompt (Some h) =
     (Inr (receive_response messages [] None), [Query prompt (Some h)])"
  by (simp add: query_with_fallback_def execute_query_resume truthy_opt_def)

lemma query_with_fallback_expired:
  "h \<noteq> [] \<Longrightarrow> client prompt (Some h) = Inl e \<Longrightarrow> expected_invalidity e \<Longrightarrow>
   query_with_fallback client prompt (Some h) =
     (case client prompt None of
        Inl e' \<Rightarrow> Inl e'
      | Inr messages \<Rightarrow> Inr (receive_response messages [] None),
      [Query prompt (Some h), Query prompt None])"
  by (simp add: query_with_fallback_def execute_query_resume execute_query_fresh
      truthy_opt_def)

lemma query_with_fallback_fatal:
  "h \<noteq> [] \<Longrightarrow> client prompt (Some h) = Inl e \<Longrightarrow> \<not> expected_invalidity e \<Longrightarrow>
   query_with_fallback client prompt (Some h) = (Inl e, [Query prompt (Some h)])"
  by (simp add: query_with_fallback_def execute_query_resume truthy_opt_def)

lemma query_with_fallback_calls:
  "list_all is_query (snd (query_with_fallback client prompt stored))"
  by (simp add: query_with_fallback_def execute_query_def Let_def split: sum.splits prod.splits)

lemma filter_queries_only:
  "list_all is_query cs \<Longrightarrow> filter is_query cs = cs \<and> filter is_create_event cs = []"
proof (induction cs)
  case Nil
  then show ?case by simp
next
  case (Cons c cs)
  then show ?case by (cases c) simp_all
qed

lemma main_valid:
  assumes "p \<noteq> []" and "truthy (dict_get p ''prompt'' (PStr []))"
    and "fst (get_stored_session_id environ memory_client (conversation_id_of p context))
           = Inr stored"
  shows "main environ memory_client client (Some p) context =
     (case query_with_fallback client (dict_get p ''prompt'' (PStr [])) stored of
        (Inl e, c2) \<Rightarrow>
          (Inr (ErrorResult (str_of e)),
           ListEvents (MEMORY_ID environ) ACTOR_ID (conversation_id_of p context) 10 # c2)
      | (Inr (full_response, sid), c2) \<Rightarrow>
          (Inr (TurnResult (py_join [CHR 0x0A] full_response)
                  (conversation_id_of p context) sid),
           ListEvents (MEMORY_ID environ) ACTOR_ID (conversation_id_of p context) 10 # c2
           @ (case sid of
                None \<Rightarrow> []
              | Some h \<Rightarrow>
                  if h = [] then []
                  else [CreateEvent (MEMORY_ID environ) ACTOR_ID
                          (conversation_id_of p context)
                          [(dict_get p ''prompt'' (PStr []), ''USER''),
                           (PStr (py_join [CHR 0x0A] full_response), ''ASSISTANT''),
                           (PStr (encode h), ''OTHER'')]])))"
  using assms
  by (simp add: main_def get_stored_session_id_eq save_session_id_eq Let_def
      split: prod.splits sum.splits option.splits)

lemma main_invalid:
  "main environ memory_client client None context
     = (Inr (ErrorResult ''No payload provided''), [])"
  "main environ memory_client client (Some []) context
     = (Inr (ErrorResult ''No payload provided''), [])"
  "p \<noteq> [] \<Longrightarrow> \<not> truthy (dict_get p ''prompt'' (PStr [])) \<Longrightarrow>
   main environ memory_client client (Some p) context
     = (Inr (ErrorResult ''No prompt provided''), [])"
  by (simp_all add: main_def)

lemma main_returns:
  "\<exists>r. fst (main environ memory_client client payload context) = Inr r"
proof (cases payload)
  case None
  then show ?thesis by (simp add: main_invalid)
next
  case (Some p)
  show ?thesis
  proof (cases "p \<noteq> [] \<and> truthy (dict_get p ''prompt'' (PStr []))")
    case True
    obtain stored where
      "fst (get_stored_session_id environ memory_client (conversation_id_of p context))
         = Inr stored"
      using get_stored_session_id_returns by blast
    with True Some show ?thesis
      by (simp add: main_valid split: prod.splits sum.splits)
  next
    case False
    with Some show ?thesis by (cases "p = []") (simp_all add: main_invalid)
  qed
qed



text \<open>
  C5 (as amended). In a turn where a stored handle \<open>h\<close> was resolved and the resume
  attempt raises an exception whose message matches the expected-invalidity signature,
  the queries made are exactly two: the resume attempt, then one fresh attempt (no
  resume handle). If the fresh attempt succeeds, a successful result is returned that
  carries the response and the session handle the fresh attempt reported; if it raises,
  its message is returned as an error result and nothing more is tried.
\<close>

theorem expired_resume_falls_back_once:
  assumes "p \<noteq> []" and "prompt = dict_get p ''prompt'' (PStr [])" and "truthy prompt"
    and "cid = conversation_id_of p context"
    and "fst (get_stored_session_id environ memory_client cid) = Inr (Some h)"
    and "h \<noteq> []"
    and "client prompt (Some h) = Inl e" and "expected_invalidity e"
  shows "filter is_query (snd (main environ memory_client client (Some p) context))
           = [Query prompt (Some h), Query prompt None]
         \<and> fst (main environ memory_client client (Some p) context)
             = (case client prompt None of
                  Inl e' \<Rightarrow> Inr (ErrorResult (str_of e'))
                | Inr messages \<Rightarrow>
                    Inr (TurnResult
                           (py_join [CHR 0x0A] (fst (receive_response messages [] None)))
                           cid
                           (snd (receive_response messages [] None))))"
  using assms
  by (simp add: main_valid query_with_fallback_expired
      split: sum.splits prod.splits option.splits)

theorem expired_resume_falls_back_once_witness:
  "filter is_query
     (snd (main Map.empty
             (store_listing
                [mk_event [(''hello'', ''USER''), (''hi there'', ''ASSISTANT''),
                           (''__SESSION__:sess-x'', ''OTHER'')]])
             (client_expired ''No conversation found for sess-x''
                [AssistantMessage [TextBlock ''ok''], ResultMessage ''sess-y''])
             (Some [(''prompt'', PStr ''continue''), (''conversation_id'', PStr ''c1'')])
             None))
     = [Query (PStr ''continue'') (Some ''sess-x''), Query (PStr ''continue'') None]
   \<and> fst (main Map.empty
             (store_listing
                [mk_event [(''hello'', ''USER''), (''hi there'', ''ASSISTANT''),
                           (''__SESSION__:sess-x'', ''OTHER'')]])
             (client_expired ''No conversation found for sess-x''
                [AssistantMessage [TextBlock ''ok''], ResultMessage ''sess-y''])
             (Some [(''prompt'', PStr ''continue''), (''conversation_id'', PStr ''c1'')])
             None)
     = Inr (TurnResult ''ok'' (PStr ''c1'') (Some ''sess-y''))"
proof -
  have stored:
    "fst (get_stored_session_id Map.empty
            (store_listing
               [mk_event [(''hello'', ''USER''), (''hi there'', ''ASSISTANT''),
                          (''__SESSION__:sess-x'', ''OTHER'')]])
            (PStr ''c1''))
       = Inr (Some ''sess-x'')"
    by (simp add: get_stored_session_id_eq store_listing_def mk_event_def mk_msg_def
        scan_msg_def dict_get_def decode_def MARKER_PREFIX_def startswith_def py_strip_def
        isspace_def)
  have expired: "expected_invalidity (PyException ''No conversation found for sess-x'')"
    by code_simp
  show ?thesis
    using expired_resume_falls_back_once
      [of "[(''prompt'', PStr ''continue''), (''conversation_id'', PStr ''c1'')]"
          "PStr ''continue''" "PStr ''c1''" None Map.empty
          "store_listing
             [mk_event [(''hello'', ''USER''), (''hi there'', ''ASSISTANT''),
                        (''__SESSION__:sess-x'', ''OTHER'')]]"
          "''sess-x''"
          "client_expired ''No conversation found for sess-x''
             [AssistantMessage [TextBlock ''ok''], ResultMessage ''sess-y'']"
          "PyException ''No conversation found for sess-x''"]
      stored expired
    by (simp add: dict_get_def conversation_id_of_def client_expired_def)
qed

text \<open>
  C5 as stated fails: the stored handle \<open>sess-x\<close> is resolved and the resume attempt
  raises \<open>No conversation found for sess-x\<close>; the fresh attempt raises too, and the turn
  ends in an error result, not in a successful response with a new handle.
\<close>

theorem expired_resume_counterexample:
  "fst (get_stored_session_id Map.empty
          (store_listing
             [mk_event [(''hello'', ''USER''), (''hi there'', ''ASSISTANT''),
                        (''__SESSION__:sess-x'', ''OTHER'')]])
          (PStr ''c1''))
     = Inr (Some ''sess-x'')
   \<and> expected_invalidity (PyException ''No conversation found for sess-x'')
   \<and> main Map.empty
        (store_listing
           [mk_event [(''hello'', ''USER''), (''hi there'', ''ASSISTANT''),
                      (''__SESSION__:sess-x'', ''OTHER'')]])
        (client_failing ''No conversation found for sess-x'')
        (Some [(''prompt'', PStr ''continue''), (''conversation_id'', PStr ''c1'')])
        None
     = (Inr (ErrorResult ''No conversation found for sess-x''),
        [ListEvents ''claudeagentsdkdemo_mem-ASCTQAHVFO'' ''claude_agent'' (PStr ''c1'') 10,
         Query (PStr ''continue'') (Some ''sess-x''),
         Query (PStr ''continue'') None])"
proof -
  have stored:
    "fst (get_stored_session_id Map.empty
            (store_listing
               [mk_event [(''hello'', ''USER''), (''hi there'', ''ASSISTANT''),
                          (''__SESSION__:sess-x'', ''OTHER'')]])
            (PStr ''c1''))
       = Inr (Some ''sess-x'')"
    by (simp add: get_stored_session_id_eq store_listing_def mk_event_def mk_msg_def
        scan_msg_def dict_get_def decode_def MARKER_PREFIX_def startswith_def py_strip_def
        isspace_def)
  have expired: "expected_invalidity (PyException ''No conversation found for sess-x'')"
    by code_simp
  have cid: "conversation_id_of
               [(''prompt'', PStr ''continue''), (''conversation_id'', PStr ''c1'')] None
             = PStr ''c1''"
    by (simp add: conversation_id_of_def dict_get_def)
  have run:
    "query_with_fallback (client_failing ''No conversation found for sess-x'')
       (PStr ''continue'') (Some ''sess-x'')
     = (Inl (PyException ''No conversation found for sess-x''),
        [Query (PStr ''continue'') (Some ''sess-x''), Query (PStr ''continue'') None])"
    using expired by (simp add: query_with_fallback_expired client_failing_def)
  have "main Map.empty
        (store_listing
           [mk_event [(''hello'', ''USER''), (''hi there'', ''ASSISTANT''),
                      (''__SESSION__:sess-x'', ''OTHER'')]])
        (client_failing ''No conversation found for sess-x'')
        (Some [(''prompt'', PStr ''continue''), (''conversation_id'', PStr ''c1'')])
        None
     = (Inr (ErrorResult ''No conversation found for sess-x''),
        [ListEvents ''claudeagentsdkdemo_mem-ASCTQAHVFO'' ''claude_agent'' (PStr ''c1'') 10,
         Query (PStr ''continue'') (Some ''sess-x''),
         Query (PStr ''continue'') None])"
    using stored run
    by (simp add: main_valid cid dict_get_def MEMORY_ID_def or_else_def ACTOR_ID_def)
  with stored expired show ?thesis by blast
qed

text \<open>
  C6. In a turn where a stored handle \<open>h\<close> was resolved and the resume attempt raises an
  exception whose message does not match the expected-invalidity signature, the resume
  attempt is the only query made (no fresh retry), nothing is appended to the store, and
  the result is the error result carrying the exception's message unchanged.
\<close>

theorem unrelated_resume_failure_is_fatal:
  assumes "p \<noteq> []" and "prompt = dict_get p ''prompt'' (PStr [])" and "truthy prompt"
    and "cid = conversation_id_of p context"
    and "fst (get_stored_session_id environ memory_client cid) = Inr (Some h)"
    and "h \<noteq> []"
    and "client prompt (Some h) = Inl e" and "\<not> expected_invalidity e"
  shows "filter is_query (snd (main environ memory_client client (Some p) context))
           = [Query prompt (Some h)]
         \<and> filter is_create_event (snd (main environ memory_client client (Some p) context))
             = []
         \<and> fst (main environ memory_client client (Some p) context)
             = Inr (ErrorResult (str_of e))"
  using assms by (simp add: main_valid query_with_fallback_fatal)

theorem unrelated_resume_failure_is_fatal_witness:
  "fst (main Map.empty
          (store_listing
             [mk_event [(''hello'', ''USER''), (''hi there'', ''ASSISTANT''),
                        (''__SESSION__:sess-x'', ''OTHER'')]])
          (client_failing ''Connection reset by peer'')
          (Some [(''prompt'', PStr ''continue''), (''conversation_id'', PStr ''c1'')])
          None)
     = Inr (ErrorResult ''Connection reset by peer'')
   \<and> filter is_query
       (snd (main Map.empty
               (store_listing
                  [mk_event [(''hello'', ''USER''), (''hi there'', ''ASSISTANT''),
                             (''__SESSION__:sess-x'', ''OTHER'')]])
               (client_failing ''Connection reset by peer'')
               (Some [(''prompt'', PStr ''continue''), (''conversation_id'', PStr ''c1'')])
               None))
     = [Query (PStr ''continue'') (Some ''sess-x'')]"
proof -
  have stored:
    "fst (get_stored_session_id Map.empty
            (store_listing
               [mk_event [(''hello'', ''USER''), (''hi there'', ''ASSISTANT''),
                          (''__SESSION__:sess-x'', ''OTHER'')]])
            (PStr ''c1''))
       = Inr (Some ''sess-x'')"
    by (simp add: get_stored_session_id_eq store_listing_def mk_event_def mk_msg_def
        scan_msg_def dict_get_def decode_def MARKER_PREFIX_def startswith_def py_strip_def
        isspace_def)
  have unrelated: "\<not> expected_invalidity (PyException ''Connection reset by peer'')"
    by code_simp
  show ?thesis
    using unrelated_resume_failure_is_fatal
      [of "[(''prompt'', PStr ''continue''), (''conversation_id'', PStr ''c1'')]"
          "PStr ''continue''" "PStr ''c1''" None Map.empty
          "store_listing
             [mk_event [(''hello'', ''USER''), (''hi there'', ''ASSISTANT''),
                        (''__SESSION__:sess-x'', ''OTHER'')]]"
          "''sess-x''"
          "client_failing ''Connection reset by peer''"
          "PyException ''Connection reset by peer''"]
      stored unrelated
    by (simp add: dict_get_def conversation_id_of_def client_failing_def)
qed

lemma py_join_closed:
  "py_join sep xs = (case xs of [] \<Rightarrow> [] | x # ys \<Rightarrow> x @ concat (map ((@) sep) ys))"
  by (induction sep xs rule: py_join.induct) simp_all

lemma text_blocks_closed: "text_blocks bs = [t. TextBlock t \<leftarrow> bs]"
  by (induction bs rule: text_blocks.induct) simp_all

lemma receive_response_closed:
  "receive_response ms rs sid =
     (rs @ [t. AssistantMessage bs \<leftarrow> ms, TextBlock t \<leftarrow> bs],
      if [s. ResultMessage s \<leftarrow> ms] = [] then sid
      else Some (last [s. ResultMessage s \<leftarrow> ms]))"
proof (induction ms rs sid rule: receive_response.induct)
  case (1 responses new_session_id)
  then show ?case by simp
next
  case (2 content ms responses new_session_id)
  then show ?case by (simp add: text_blocks_closed)
next
  case (3 sid ms responses new_session_id)
  then show ?case by simp
next
  case (4 ms responses new_session_id)
  then show ?case by simp
qed

lemma query_with_fallback_success:
  assumes "query_with_fallback client prompt stored = (Inr r, calls)"
  shows "\<exists>resume messages. client prompt resume = Inr messages
            \<and> r = receive_response messages [] None
            \<and> calls \<noteq> [] \<and> last calls = Query prompt resume"
  using assms
  by (auto simp: query_with_fallback_def execute_query_def Let_def
      split: if_splits sum.splits prod.splits)

lemma appended_batches_queries:
  "list_all is_query cs \<Longrightarrow> appended_batches memory_client (cs @ rest)
     = appended_batches memory_client rest"
proof (induction cs)
  case Nil
  then show ?case by simp
next
  case (Cons c cs)
  then show ?case by (cases c) simp_all
qed

text \<open>
  C7 (as amended). In every turn that completes successfully, returning response text
  \<open>response\<close>, conversation id \<open>cid\<close> and session handle \<open>sid\<close>: the response is every
  text segment of the successful attempt, in the order emitted, joined by newlines, and
  \<open>sid\<close> is the handle that attempt reported last. If it reported a (non-empty) handle
  \<open>h\<close>, exactly one append call is made to the store, for \<open>cid\<close>, with exactly the three
  messages (prompt, \<open>USER\<close>), (response, \<open>ASSISTANT\<close>), (encoded marker of \<open>h\<close>,
  \<open>OTHER\<close>) in this order; the batch is appended when that call returns, and nothing is
  appended when it raises. If the attempt reported no handle (none, or the empty
  string), no append call is made.
\<close>

theorem persist_exactly_one_batch:
  assumes "fst (main environ memory_client client (Some p) context)
             = Inr (TurnResult response cid sid)"
    and "calls = snd (main environ memory_client client (Some p) context)"
    and "prompt = dict_get p ''prompt'' (PStr [])"
    and "batch = (\<lambda>h. [(prompt, ''USER''), (PStr response, ''ASSISTANT''),
                       (PStr (encode h), ''OTHER'')])"
  shows "filter is_create_event calls
           = (case sid of
                None \<Rightarrow> []
              | Some h \<Rightarrow>
                  if h = [] then []
                  else [CreateEvent (MEMORY_ID environ) ACTOR_ID cid (batch h)])
         \<and> appended_batches memory_client calls
             = (case sid of
                  None \<Rightarrow> []
                | Some h \<Rightarrow>
                    if h = [] then []
                    else if create_event memory_client (MEMORY_ID environ) ACTOR_ID cid
                              (batch h) = None
                         then [(cid, batch h)]
                         else [])
         \<and> cid = conversation_id_of p context
         \<and> (\<exists>resume messages.
               client prompt resume = Inr messages
               \<and> last (filter is_query calls) = Query prompt resume
               \<and> response
                   = (case [t. AssistantMessage bs \<leftarrow> messages, TextBlock t \<leftarrow> bs] of
                        [] \<Rightarrow> []
                      | x # ys \<Rightarrow> x @ concat (map ((@) [CHR 0x0A]) ys))
               \<and> sid = (if [s. ResultMessage s \<leftarrow> messages] = [] then None
                        else Some (last [s. ResultMessage s \<leftarrow> messages])))"
proof -
  have "p \<noteq> [] \<and> truthy prompt"
  proof (rule ccontr)
    assume "\<not> (p \<noteq> [] \<and> truthy prompt)"
    then have "\<exists>m. fst (main environ memory_client client (Some p) context)
                     = Inr (ErrorResult m)"
      unfolding assms(3) by (cases "p = []") (auto simp: main_invalid)
    with assms(1) show False by simp
  qed
  then have valid: "p \<noteq> []" "truthy (dict_get p ''prompt'' (PStr []))"
    by (simp_all add: assms(3))
  obtain stored where stored:
    "fst (get_stored_session_id environ memory_client (conversation_id_of p context))
       = Inr stored"
    using get_stored_session_id_returns by blast
  obtain out qs where run:
    "query_with_fallback client (dict_get p ''prompt'' (PStr [])) stored = (out, qs)"
    by (cases "query_with_fallback client (dict_get p ''prompt'' (PStr [])) stored")
  have "list_all is_query qs"
    using query_with_fallback_calls [of client "dict_get p ''prompt'' (PStr [])" stored] run
    by simp
  then have only_queries: "filter is_query qs = qs" "filter is_create_event qs = []"
    and no_batches: "\<And>rest. appended_batches memory_client (qs @ rest)
                       = appended_batches memory_client rest"
    using filter_queries_only [of qs] appended_batches_queries by simp_all
  from assms(1) valid stored run obtain full_response where
    out: "out = Inr (full_response, sid)"
    and response: "response = py_join [CHR 0x0A] full_response"
    and cid: "cid = conversation_id_of p context"
    by (cases out) (auto simp: main_valid split: prod.splits)
  from run out obtain resume messages where
    answered: "client prompt resume = Inr messages"
    and collected: "(full_response, sid) = receive_response messages [] None"
    and "qs \<noteq> []" and last_query: "last qs = Query prompt resume"
    using query_with_fallback_success [of client prompt stored "(full_response, sid)" qs]
    unfolding assms(3) by blast
  have calls: "calls = ListEvents (MEMORY_ID environ) ACTOR_ID cid 10 # qs
                 @ (case sid of
                      None \<Rightarrow> []
                    | Some h \<Rightarrow>
                        if h = [] then []
                        else [CreateEvent (MEMORY_ID environ) ACTOR_ID cid (batch h)])"
    unfolding assms(2) assms(4) using valid stored run out response cid
    by (simp add: main_valid assms(3) split: option.splits)
  have creates: "filter is_create_event calls
           = (case sid of
                None \<Rightarrow> []
              | Some h \<Rightarrow>
                  if h = [] then []
                  else [CreateEvent (MEMORY_ID environ) ACTOR_ID cid (batch h)])"
    unfolding calls using only_queries by (simp split: option.splits)
  have appended: "appended_batches memory_client calls
             = (case sid of
                  None \<Rightarrow> []
                | Some h \<Rightarrow>
                    if h = [] then []
                    else if create_event memory_client (MEMORY_ID environ) ACTOR_ID cid
                              (batch h) = None
                         then [(cid, batch h)]
                         else [])"
    unfolding calls using no_batches by (simp split: option.splits)
  have queries: "last (filter is_query calls) = Query prompt resume"
    unfolding calls using only_queries \<open>qs \<noteq> []\<close> last_query
    by (simp split: option.splits)
  have texts: "response
                 = (case [t. AssistantMessage bs \<leftarrow> messages, TextBlock t \<leftarrow> bs] of
                      [] \<Rightarrow> []
                    | x # ys \<Rightarrow> x @ concat (map ((@) [CHR 0x0A]) ys))"
    using collected unfolding response receive_response_closed py_join_closed by simp
  have handle: "sid = (if [s. ResultMessage s \<leftarrow> messages] = [] then None
                       else Some (last [s. ResultMessage s \<leftarrow> messages]))"
    using collected unfolding receive_response_closed by simp
  from creates appended cid answered queries texts handle show ?thesis by blast
qed

theorem persist_exactly_one_batch_witness:
  "filter is_create_event
     (snd (main Map.empty (store_listing [])
             (client_answering
                [AssistantMessage [TextBlock ''hi'', OtherBlock, TextBlock ''there''],
                 OtherMessage,
                 AssistantMessage [TextBlock ''bye''],
                 ResultMessage ''sess-0'', ResultMessage ''sess-1''])
             (Some [(''prompt'', PStr ''hello''), (''conversation_id'', PStr ''c1'')])
             None))
   = [CreateEvent ''claudeagentsdkdemo_mem-ASCTQAHVFO'' ''claude_agent'' (PStr ''c1'')
        [(PStr ''hello'', ''USER''),
         (PStr (''hi'' @ [CHR 0x0A] @ ''there'' @ [CHR 0x0A] @ ''bye''), ''ASSISTANT''),
         (PStr ''__SESSION__:sess-1'', ''OTHER'')]]
   \<and> appended_batches (store_listing [])
       (snd (main Map.empty (store_listing [])
               (client_answering
                  [AssistantMessage [TextBlock ''hi'', OtherBlock, TextBlock ''there''],
                   OtherMessage,
                   AssistantMessage [TextBlock ''bye''],
                   ResultMessage ''sess-0'', ResultMessage ''sess-1''])
               (Some [(''prompt'', PStr ''hello''), (''conversation_id'', PStr ''c1'')])
               None))
     = [(PStr ''c1'',
         [(PStr ''hello'', ''USER''),
          (PStr (''hi'' @ [CHR 0x0A] @ ''there'' @ [CHR 0x0A] @ ''bye''), ''ASSISTANT''),
          (PStr ''__SESSION__:sess-1'', ''OTHER'')])]"
proof -
  have stored:
    "fst (get_stored_session_id Map.empty (store_listing []) (PStr ''c1'')) = Inr None"
    by (simp add: get_stored_session_id_eq store_listing_def)
  have cid: "conversation_id_of
               [(''prompt'', PStr ''hello''), (''conversation_id'', PStr ''c1'')] None
             = PStr ''c1''"
    by (simp add: conversation_id_of_def dict_get_def)
  have turn:
    "fst (main Map.empty (store_listing [])
            (client_answering
               [AssistantMessage [TextBlock ''hi'', OtherBlock, TextBlock ''there''],
                OtherMessage,
                AssistantMessage [TextBlock ''bye''],
                ResultMessage ''sess-0'', ResultMessage ''sess-1''])
            (Some [(''prompt'', PStr ''hello''), (''conversation_id'', PStr ''c1'')])
            None)
     = Inr (TurnResult (''hi'' @ [CHR 0x0A] @ ''there'' @ [CHR 0x0A] @ ''bye'')
              (PStr ''c1'') (Some ''sess-1''))"
    using stored
    by (simp add: main_valid cid dict_get_def query_with_fallback_fresh truthy_opt_def
        execute_query_fresh client_answering_def)
  show ?thesis
    using persist_exactly_one_batch [OF turn refl refl refl]
    by (simp add: dict_get_def MEMORY_ID_def or_else_def ACTOR_ID_def encode_def
        MARKER_PREFIX_def store_listing_def)
qed

text \<open>
  C7 as stated fails: the store is down, the fresh attempt answers and reports the
  handle \<open>sess-1\<close>, and the turn completes successfully; the one append call raises, so
  no batch is appended to the store.
\<close>

theorem persist_store_down_counterexample:
  "fst (main Map.empty (store_down ''timeout'')
          (client_answering [AssistantMessage [TextBlock ''hi there''],
                             ResultMessage ''sess-1''])
          (Some [(''prompt'', PStr ''hello''), (''conversation_id'', PStr ''c1'')])
          None)
     = Inr (TurnResult ''hi there'' (PStr ''c1'') (Some ''sess-1''))
   \<and> appended_batches (store_down ''timeout'')
       (snd (main Map.empty (store_down ''timeout'')
               (client_answering [AssistantMessage [TextBlock ''hi there''],
                                  ResultMessage ''sess-1''])
               (Some [(''prompt'', PStr ''hello''), (''conversation_id'', PStr ''c1'')])
               None))
     = []"
proof -
  have stored:
    "fst (get_stored_session_id Map.empty (store_down ''timeout'') (PStr ''c1''))
       = Inr None"
    by (simp add: get_stored_session_id_eq store_down_def)
  have cid: "conversation_id_of
               [(''prompt'', PStr ''hello''), (''conversation_id'', PStr ''c1'')] None
             = PStr ''c1''"
    by (simp add: conversation_id_of_def dict_get_def)
  have "main Map.empty (store_down ''timeout'')
          (client_answering [AssistantMessage [TextBlock ''hi there''],
                             ResultMessage ''sess-1''])
          (Some [(''prompt'', PStr ''hello''), (''conversation_id'', PStr ''c1'')])
          None
        = (Inr (TurnResult ''hi there'' (PStr ''c1'') (Some ''sess-1'')),
           [ListEvents ''claudeagentsdkdemo_mem-ASCTQAHVFO'' ''claude_agent'' (PStr ''c1'') 10,
            Query (PStr ''hello'') None,
            CreateEvent ''claudeagentsdkdemo_mem-ASCTQAHVFO'' ''claude_agent'' (PStr ''c1'')
              [(PStr ''hello'', ''USER''), (PStr ''hi there'', ''ASSISTANT''),
               (PStr ''__SESSION__:sess-1'', ''OTHER'')]])"
    using stored
    by (simp add: main_valid cid dict_get_def query_with_fallback_fresh truthy_opt_def
        execute_query_fresh client_answering_def MEMORY_ID_def or_else_def ACTOR_ID_def
        encode_def MARKER_PREFIX_def)
  then show ?thesis by (simp add: store_down_def)
qed

lemma get_stored_session_id_ignores_create_event:
  "get_stored_session_id environ (memory_client\<lparr>create_event := f\<rparr>) conversation_id
     = get_stored_session_id environ memory_client conversation_id"
  by (simp add: get_stored_session_id_def get_stored_session_id_try_def)

lemma save_session_id_calls:
  "save_session_id environ memory_client conversation_id session_id user_input response =
     (Inr (),
      if session_id = [] then []
      else [CreateEvent (MEMORY_ID environ) ACTOR_ID conversation_id
              [(user_input, ''USER''), (PStr response, ''ASSISTANT''),
               (PStr (encode session_id), ''OTHER'')]])"
  by (simp add: save_session_id_def MEMORY_ID_nonempty Let_def split: option.splits)

text \<open>
  C8. What the append does has no influence on the turn: with a store client whose
  \<open>create_event\<close> raises, \<open>main\<close> returns the same result, after the same calls, as with
  one whose \<open>create_event\<close> returns, and no exception leaves \<open>main\<close>. So a successful
  turn whose append fails is reported with the same response, conversation id and
  session handle as if the append had succeeded.
\<close>

theorem persistence_failure_swallowed:
  "main environ (memory_client\<lparr>create_event := (\<lambda>m a s ms. Some e)\<rparr>) client payload
     context
     = main environ (memory_client\<lparr>create_event := (\<lambda>m a s ms. None)\<rparr>) client payload
         context
   \<and> (\<exists>r. fst (main environ (memory_client\<lparr>create_event := (\<lambda>m a s ms. Some e)\<rparr>)
                 client payload context) = Inr r)"
proof -
  have "main environ (memory_client\<lparr>create_event := (\<lambda>m a s ms. Some e)\<rparr>) client
          payload context
        = main environ (memory_client\<lparr>create_event := (\<lambda>m a s ms. None)\<rparr>) client
            payload context"
    unfolding main_def get_stored_session_id_ignores_create_event save_session_id_calls
    by (rule refl)
  with main_returns show ?thesis by blast
qed

lemma persistence_failure_run:
  "main Map.empty (store_down ''timeout'')
     (client_answering [AssistantMessage [TextBlock ''hi there''], ResultMessage ''sess-1''])
     (Some [(''prompt'', PStr ''hello''), (''conversation_id'', PStr ''c1'')])
     None
   = (Inr (TurnResult ''hi there'' (PStr ''c1'') (Some ''sess-1'')),
      [ListEvents ''claudeagentsdkdemo_mem-ASCTQAHVFO'' ''claude_agent'' (PStr ''c1'') 10,
       Query (PStr ''hello'') None,
       CreateEvent ''claudeagentsdkdemo_mem-ASCTQAHVFO'' ''claude_agent'' (PStr ''c1'')
         [(PStr ''hello'', ''USER''), (PStr ''hi there'', ''ASSISTANT''),
          (PStr ''__SESSION__:sess-1'', ''OTHER'')]])"
proof -
  have stored:
    "fst (get_stored_session_id Map.empty (store_down ''timeout'') (PStr ''c1''))
       = Inr None"
    by (simp add: get_stored_session_id_eq store_down_def)
  have cid: "conversation_id_of
               [(''prompt'', PStr ''hello''), (''conversation_id'', PStr ''c1'')] None
             = PStr ''c1''"
    by (simp add: conversation_id_of_def dict_get_def)
  show ?thesis
    using stored
    by (simp add: main_valid cid dict_get_def query_with_fallback_fresh truthy_opt_def
        execute_query_fresh client_answering_def MEMORY_ID_def or_else_def ACTOR_ID_def
        encode_def MARKER_PREFIX_def)
qed

text \<open>
  C9. For every request whose payload is missing or empty, or whose prompt is missing,
  the empty string or any other false value, \<open>main\<close> returns an error result at once
  and calls neither the store (no listing, no append) nor the agent.
\<close>

theorem invalid_input_no_effects:
  assumes "payload = None \<or> payload = Some []
           \<or> (\<exists>p. payload = Some p
                  \<and> (case map_of p ''prompt'' of None \<Rightarrow> True | Some v \<Rightarrow> \<not> truthy v))"
  shows "main environ memory_client client payload context
           = (Inr (ErrorResult (if payload = None \<or> payload = Some []
                                then ''No payload provided'' else ''No prompt provided'')),
              [])"
proof -
  consider "payload = None" | "payload = Some []"
    | p where "payload = Some p" and "p \<noteq> []"
        and "case map_of p ''prompt'' of None \<Rightarrow> True | Some v \<Rightarrow> \<not> truthy v"
    using assms by blast
  then show ?thesis
  proof cases
    case 1
    then show ?thesis by (simp add: main_invalid)
  next
    case 2
    then show ?thesis by (simp add: main_invalid)
  next
    case 3
    then have "\<not> truthy (dict_get p ''prompt'' (PStr []))"
      by (simp add: dict_get_def split: option.splits)
    with 3 show ?thesis by (simp add: main_invalid)
  qed
qed

theorem invalid_input_no_effects_witness:
  "main Map.empty (store_listing [])
     (client_answering [AssistantMessage [TextBlock ''hi there''], ResultMessage ''sess-1''])
     (Some [(''conversation_id'', PStr ''c1''), (''prompt'', PStr '''')])
     None
   = (Inr (ErrorResult ''No prompt provided''), [])"
  using invalid_input_no_effects
    [of "Some [(''conversation_id'', PStr ''c1''), (''prompt'', PStr '''')]"
        Map.empty "store_listing []"
        "client_answering [AssistantMessage [TextBlock ''hi there''],
                           ResultMessage ''sess-1'']"
        None]
  by simp

lemma of_char_lower_char:
  "(of_char (lower_char c) :: nat) =
     (if (65 \<le> (of_char c :: nat) \<and> (of_char c :: nat) \<le> 90)
         \<or> (192 \<le> (of_char c :: nat) \<and> (of_char c :: nat) \<le> 222 \<and> (of_char c :: nat) \<noteq> 215)
      then of_char c + 32 else of_char c)"
  by (simp add: lower_char_def Let_def)

lemma lower_char_iff:
  "lower_char c = l \<longleftrightarrow>
     (let n = (of_char c :: nat); m = (of_char l :: nat)
      in if (65 \<le> n \<and> n \<le> 90) \<or> (192 \<le> n \<and> n \<le> 222 \<and> n \<noteq> 215)
         then n + 32 = m else n = m)"
proof -
  have "lower_char c = l \<longleftrightarrow> (of_char (lower_char c) :: nat) = of_char l"
    by simp
  then show ?thesis by (simp add: of_char_lower_char Let_def)
qed

lemma char_eq_code: "c = d \<longleftrightarrow> (of_char c :: nat) = of_char d"
  by simp

lemma capital_of_code:
  "capital_of l = Some c \<longleftrightarrow>
     (97 \<le> (of_char l :: nat) \<and> (of_char l :: nat) \<le> 122
      \<and> (of_char c :: nat) + 32 = of_char l)"
proof
  assume "capital_of l = Some c"
  then have "(l, c) \<in> set (zip ''abcdefghijklmnopqrstuvwxyz'' ''ABCDEFGHIJKLMNOPQRSTUVWXYZ'')"
    unfolding capital_of_def by (rule map_of_SomeD)
  then show "97 \<le> (of_char l :: nat) \<and> (of_char l :: nat) \<le> 122
      \<and> (of_char c :: nat) + 32 = of_char l"
    by (simp, elim disjE) simp_all
next
  assume range: "97 \<le> (of_char l :: nat) \<and> (of_char l :: nat) \<le> 122
      \<and> (of_char c :: nat) + 32 = of_char l"
  define i where "i = (of_char l :: nat) - 97"
  from range have i: "i < 26" unfolding i_def by arith
  from range have l: "(of_char l :: nat) = 97 + i" unfolding i_def by arith
  from range have c: "(of_char c :: nat) = 65 + i" unfolding i_def by arith
  have "l = char_of (97 + i)" and "c = char_of (65 + i)"
    using l [symmetric] c [symmetric] by simp_all
  moreover have "\<forall>i < 26. capital_of (char_of (97 + i :: nat)) = Some (char_of (65 + i))"
    by code_simp
  ultimately show "capital_of l = Some c" using i by blast
qed

lemma lower_char_plain:
  assumes "l \<in> set ''abcdefghijklmnopqrstuvwxyz 1''"
  shows "lower_char c = l \<longleftrightarrow> (c = l \<or> capital_of l = Some c)"
proof -
  from assms have "(97 \<le> (of_char l :: nat) \<and> (of_char l :: nat) \<le> 122)
                   \<or> (of_char l :: nat) < 65"
    by (simp, elim disjE) simp_all
  then show ?thesis
    unfolding lower_char_iff capital_of_code char_eq_code [of c l] Let_def by arith
qed

lemma map_eq_iff_list_all2:
  assumes "\<And>l c. l \<in> set phrase \<Longrightarrow> (f c = l) = P l c"
  shows "(map f s = phrase) = list_all2 P phrase s"
  using assms
proof (induction phrase arbitrary: s)
  case Nil
  then show ?case by simp
next
  case (Cons l ls)
  then show ?case by (cases s) auto
qed

lemma py_lower_any_case:
  assumes "set phrase \<subseteq> set ''abcdefghijklmnopqrstuvwxyz 1''"
  shows "(py_lower s = phrase) = any_case phrase s"
  unfolding py_lower_def any_case_def
proof (rule map_eq_iff_list_all2)
  fix l c
  assume "l \<in> set phrase"
  with assms have "l \<in> set ''abcdefghijklmnopqrstuvwxyz 1''" by (rule subsetD)
  then show "(lower_char c = l) = (c = l \<or> capital_of l = Some c)"
    by (rule lower_char_plain)
qed

lemma expected_invalidity_any_case:
  "expected_invalidity e \<longleftrightarrow>
     (\<exists>pre mid post. str_of e = pre @ mid @ post
        \<and> (any_case ''no conversation found'' mid \<or> any_case ''exit code 1'' mid))"
proof -
  have 1: "\<And>s. (py_lower s = ''no conversation found'') = any_case ''no conversation found'' s"
    by (rule py_lower_any_case) simp
  have 2: "\<And>s. (py_lower s = ''exit code 1'') = any_case ''exit code 1'' s"
    by (rule py_lower_any_case) simp
  show ?thesis
    unfolding expected_invalidity_def Let_def py_in_lower_iff 1 2 by blast
qed

lemma capitals_match:
  "expected_invalidity (PyException ''Error: NO CONVERSATION FOUND with session ID x'')"
  by code_simp

text \<open>
  C10. The resume failure is classified without regard to letter case: it is an
  expected invalidity exactly when the message of the exception contains the phrase
  \<open>no conversation found\<close> or the phrase \<open>exit code 1\<close> with each letter written small
  or capital. In a turn where a stored handle was resolved and the resume attempt
  raises, such a message is followed by the fresh query, and any other message ends the
  turn with the error result carrying it.
\<close>

theorem classification_is_case_insensitive:
  assumes "p \<noteq> []" and "prompt = dict_get p ''prompt'' (PStr [])" and "truthy prompt"
    and "cid = conversation_id_of p context"
    and "fst (get_stored_session_id environ memory_client cid) = Inr (Some h)"
    and "h \<noteq> []"
    and "client prompt (Some h) = Inl e"
    and "matches = (\<exists>pre mid post. str_of e = pre @ mid @ post
                     \<and> (any_case ''no conversation found'' mid
                        \<or> any_case ''exit code 1'' mid))"
  shows "expected_invalidity e = matches
         \<and> filter is_query (snd (main environ memory_client client (Some p) context))
             = (if matches then [Query prompt (Some h), Query prompt None]
                else [Query prompt (Some h)])
         \<and> (\<not> matches \<longrightarrow>
               fst (main environ memory_client client (Some p) context)
                 = Inr (ErrorResult (str_of e)))"
proof -
  have classified: "expected_invalidity e = matches"
    unfolding assms(8) by (rule expected_invalidity_any_case)
  show ?thesis
  proof (cases matches)
    case True
    with classified assms(1-7) show ?thesis
      by (simp add: main_valid query_with_fallback_expired
          split: sum.splits prod.splits option.splits)
  next
    case False
    with classified assms(1-7) show ?thesis
      by (simp add: main_valid query_with_fallback_fatal)
  qed
qed

theorem classification_is_case_insensitive_witness:
  "expected_invalidity (PyException ''Error: NO Conversation FOUND with session ID x'')
   \<and> filter is_query
       (snd (main Map.empty
               (store_listing
                  [mk_event [(''hello'', ''USER''), (''hi there'', ''ASSISTANT''),
                             (''__SESSION__:sess-x'', ''OTHER'')]])
               (client_expired ''Error: NO Conversation FOUND with session ID x''
                  [AssistantMessage [TextBlock ''ok''], ResultMessage ''sess-y''])
               (Some [(''prompt'', PStr ''continue''), (''conversation_id'', PStr ''c1'')])
               None))
     = [Query (PStr ''continue'') (Some ''sess-x''), Query (PStr ''continue'') None]"
proof -
  have stored:
    "fst (get_stored_session_id Map.empty
            (store_listing
               [mk_event [(''hello'', ''USER''), (''hi there'', ''ASSISTANT''),
                          (''__SESSION__:sess-x'', ''OTHER'')]])
            (PStr ''c1''))
       = Inr (Some ''sess-x'')"
    by (simp add: get_stored_session_id_eq store_listing_def mk_event_def mk_msg_def
        scan_msg_def dict_get_def decode_def MARKER_PREFIX_def startswith_def py_strip_def
        isspace_def)
  have "any_case ''no conversation found'' ''NO Conversation FOUND''"
    by (simp add: any_case_def capital_of_def)
  moreover have "''Error: NO Conversation FOUND with session ID x''
                   = ''Error: '' @ ''NO Conversation FOUND'' @ '' with session ID x''"
    by simp
  ultimately have capitals:
    "\<exists>pre mid post.
       str_of (PyException ''Error: NO Conversation FOUND with session ID x'')
         = pre @ mid @ post
       \<and> (any_case ''no conversation found'' mid \<or> any_case ''exit code 1'' mid)"
    unfolding str_of.simps by blast
  show ?thesis
    using classification_is_case_insensitive
      [of "[(''prompt'', PStr ''continue''), (''conversation_id'', PStr ''c1'')]"
          "PStr ''continue''" "PStr ''c1''" None Map.empty
          "store_listing
             [mk_event [(''hello'', ''USER''), (''hi there'', ''ASSISTANT''),
                        (''__SESSION__:sess-x'', ''OTHER'')]]"
          "''sess-x''"
          "client_expired ''Error: NO Conversation FOUND with session ID x''
             [AssistantMessage [TextBlock ''ok''], ResultMessage ''sess-y'']"
          "PyException ''Error: NO Conversation FOUND with session ID x''"
          "\<exists>pre mid post.
             str_of (PyException ''Error: NO Conversation FOUND with session ID x'')
               = pre @ mid @ post
             \<and> (any_case ''no conversation found'' mid \<or> any_case ''exit code 1'' mid)"]
      stored capitals
    by (simp add: dict_get_def conversation_id_of_def client_expired_def)
qed

end
